theory Spec2Isabelle
  imports Complex_Main "HOL-Library.Sublist"
begin

section \<open>Text primitives\<close>

text \<open>
  A text is a \<^typ>\<open>string\<close>. Letter case and the classes \<^verbatim>\<open>\w\<close>, \<^verbatim>\<open>\s\<close>, \<^verbatim>\<open>\d\<close> are
  modelled on the ASCII range, where Python's \<^verbatim>\<open>str.lower\<close>, \<^verbatim>\<open>str.strip\<close> and \<^verbatim>\<open>re\<close> agree
  with the definitions below. The glyphs outside ASCII that occur in the tables of the program
  are written as their UTF-8 byte sequences.
\<close>

definition upper_letters :: string where
  "upper_letters = ''ABCDEFGHIJKLMNOPQRSTUVWXYZ''"

definition lower_letters :: string where
  "lower_letters = ''abcdefghijklmnopqrstuvwxyz''"

definition letters :: string where
  "letters = lower_letters @ upper_letters"

definition digits :: string where
  "digits = ''0123456789''"

text \<open>The ASCII characters for which \<^verbatim>\<open>str.isspace\<close> holds: TAB, LF, VT, FF, CR, FS, GS, RS, US, SPACE.\<close>

definition whitespace :: string where
  "whitespace = [CHR 0x09, CHR 0x0A, CHR 0x0B, CHR 0x0C, CHR 0x0D,
                 CHR 0x1C, CHR 0x1D, CHR 0x1E, CHR 0x1F, CHR 0x20]"

definition word_chars :: string where
  "word_chars = letters @ digits @ ''_''"

definition lower_char :: "char \<Rightarrow> char" where
  "lower_char c = (case map_of (zip upper_letters lower_letters) c of Some d \<Rightarrow> d | None \<Rightarrow> c)"

definition upper_char :: "char \<Rightarrow> char" where
  "upper_char c = (case map_of (zip lower_letters upper_letters) c of Some d \<Rightarrow> d | None \<Rightarrow> c)"

text \<open>\<^verbatim>\<open>str.lower()\<close>\<close>

definition lower :: "string \<Rightarrow> string" where
  "lower s = map lower_char s"

definition is_space :: "char \<Rightarrow> bool" where
  "is_space c = (c \<in> set whitespace)"

text \<open>\<^verbatim>\<open>str.strip()\<close>\<close>

definition strip :: "string \<Rightarrow> string" where
  "strip s = rev (dropWhile is_space (rev (dropWhile is_space s)))"

text \<open>\<^verbatim>\<open>sub in s\<close> is \<^term>\<open>sublist sub s\<close>. \<^verbatim>\<open>s.count(sub)\<close> counts the occurrences of
  \<^verbatim>\<open>sub\<close> from left to right without overlap; for the empty \<^verbatim>\<open>sub\<close> it is \<^verbatim>\<open>len(s) + 1\<close>.\<close>

function count_sub :: "string \<Rightarrow> string \<Rightarrow> nat" where
  "count_sub sub s =
     (if sub = [] then length s + 1
      else if s = [] then 0
      else if prefix sub s then 1 + count_sub sub (drop (length sub) s)
      else count_sub sub (tl s))"
  by pat_completeness auto
termination
  by (relation "measure (\<lambda>(sub, s). length s)") auto

declare count_sub.simps [simp del]

text \<open>\<^verbatim>\<open>s.replace(old, new)\<close> for a non-empty \<^verbatim>\<open>old\<close>.\<close>

function replace :: "string \<Rightarrow> string \<Rightarrow> string \<Rightarrow> string" where
  "replace old new s =
     (if old = [] \<or> s = [] then s
      else if prefix old s then new @ replace old new (drop (length old) s)
      else hd s # replace old new (tl s))"
  by pat_completeness auto
termination
  by (relation "measure (\<lambda>(old, new, s). length s)") auto

declare replace.simps [simp del]

section \<open>Glyphs outside ASCII\<close>

text \<open>Each glyph of the program's tables, named by its code point, as its UTF-8 bytes.\<close>

definition u00B1 :: string where \<comment> \<open>plus-minus\<close>
  "u00B1 = [CHR 0xC2, CHR 0xB1]"

definition u00B2 :: string where \<comment> \<open>superscript two\<close>
  "u00B2 = [CHR 0xC2, CHR 0xB2]"

definition u00B3 :: string where \<comment> \<open>superscript three\<close>
  "u00B3 = [CHR 0xC2, CHR 0xB3]"

definition u00D7 :: string where \<comment> \<open>multiplication\<close>
  "u00D7 = [CHR 0xC3, CHR 0x97]"

definition u00E0 :: string where \<comment> \<open>a grave\<close>
  "u00E0 = [CHR 0xC3, CHR 0xA0]"

definition u00F7 :: string where \<comment> \<open>division\<close>
  "u00F7 = [CHR 0xC3, CHR 0xB7]"

definition u0394 :: string where \<comment> \<open>Delta\<close>
  "u0394 = [CHR 0xCE, CHR 0x94]"

definition u03B1 :: string where \<comment> \<open>alpha\<close>
  "u03B1 = [CHR 0xCE, CHR 0xB1]"

definition u03B2 :: string where \<comment> \<open>beta\<close>
  "u03B2 = [CHR 0xCE, CHR 0xB2]"

definition u03B3 :: string where \<comment> \<open>gamma\<close>
  "u03B3 = [CHR 0xCE, CHR 0xB3]"

definition u03B8 :: string where \<comment> \<open>theta\<close>
  "u03B8 = [CHR 0xCE, CHR 0xB8]"

definition u03BB :: string where \<comment> \<open>lambda\<close>
  "u03BB = [CHR 0xCE, CHR 0xBB]"

definition u03BC :: string where \<comment> \<open>mu\<close>
  "u03BC = [CHR 0xCE, CHR 0xBC]"

definition u03C0 :: string where \<comment> \<open>pi\<close>
  "u03C0 = [CHR 0xCF, CHR 0x80]"

definition u03C3 :: string where \<comment> \<open>sigma\<close>
  "u03C3 = [CHR 0xCF, CHR 0x83]"

definition u2202 :: string where \<comment> \<open>partial\<close>
  "u2202 = [CHR 0xE2, CHR 0x88, CHR 0x82]"

definition u2206 :: string where \<comment> \<open>increment\<close>
  "u2206 = [CHR 0xE2, CHR 0x88, CHR 0x86]"

definition u2207 :: string where \<comment> \<open>nabla\<close>
  "u2207 = [CHR 0xE2, CHR 0x88, CHR 0x87]"

definition u2208 :: string where \<comment> \<open>element of\<close>
  "u2208 = [CHR 0xE2, CHR 0x88, CHR 0x88]"

definition u2209 :: string where \<comment> \<open>not element of\<close>
  "u2209 = [CHR 0xE2, CHR 0x88, CHR 0x89]"

definition u220F :: string where \<comment> \<open>product\<close>
  "u220F = [CHR 0xE2, CHR 0x88, CHR 0x8F]"

definition u2211 :: string where \<comment> \<open>sum\<close>
  "u2211 = [CHR 0xE2, CHR 0x88, CHR 0x91]"

definition u221A :: string where \<comment> \<open>root\<close>
  "u221A = [CHR 0xE2, CHR 0x88, CHR 0x9A]"

definition u221E :: string where \<comment> \<open>infinity\<close>
  "u221E = [CHR 0xE2, CHR 0x88, CHR 0x9E]"

definition u2229 :: string where \<comment> \<open>intersection\<close>
  "u2229 = [CHR 0xE2, CHR 0x88, CHR 0xA9]"

definition u222A :: string where \<comment> \<open>union\<close>
  "u222A = [CHR 0xE2, CHR 0x88, CHR 0xAA]"

definition u222B :: string where \<comment> \<open>integral\<close>
  "u222B = [CHR 0xE2, CHR 0x88, CHR 0xAB]"

definition u2248 :: string where \<comment> \<open>almost equal\<close>
  "u2248 = [CHR 0xE2, CHR 0x89, CHR 0x88]"

definition u2260 :: string where \<comment> \<open>not equal\<close>
  "u2260 = [CHR 0xE2, CHR 0x89, CHR 0xA0]"

definition u2264 :: string where \<comment> \<open>less or equal\<close>
  "u2264 = [CHR 0xE2, CHR 0x89, CHR 0xA4]"

definition u2265 :: string where \<comment> \<open>greater or equal\<close>
  "u2265 = [CHR 0xE2, CHR 0x89, CHR 0xA5]"

definition u2282 :: string where \<comment> \<open>subset\<close>
  "u2282 = [CHR 0xE2, CHR 0x8A, CHR 0x82]"

definition u2286 :: string where \<comment> \<open>subset or equal\<close>
  "u2286 = [CHR 0xE2, CHR 0x8A, CHR 0x86]"

text \<open>\<^verbatim>\<open>len(s)\<close> counts code points: the bytes of a UTF-8 text that are not continuation bytes.\<close>

definition is_continuation :: "char \<Rightarrow> bool" where
  "is_continuation c = (128 \<le> (of_char c :: nat) \<and> (of_char c :: nat) < 192)"

definition py_len :: "string \<Rightarrow> nat" where
  "py_len s = length (filter (\<lambda>c. \<not> is_continuation c) s)"

section \<open>Regular expressions\<close>

text \<open>
  The fragment of Python's \<^verbatim>\<open>re\<close> that the program's patterns use: literals, character
  classes, greedy and lazy repetition of a character class, optional groups, sequence,
  alternation and the word boundary \<^verbatim>\<open>\b\<close>. A cursor is the character before the current
  position, if any, and the rest of the text. \<open>ends\<close> lists the cursors at which a match that
  starts at the given cursor can end, in the order in which the backtracking matcher tries
  them; the match that \<^verbatim>\<open>re\<close> reports is the first one.
\<close>

datatype cls = In "char list" | NotIn "char list"

datatype rx =
    Lit string
  | One cls
  | Many cls
  | Many1 cls
  | Few cls
  | Opt rx
  | Seq rx rx
  | Alt rx rx
  | WordB

type_synonym cursor = "char option \<times> string"

definition listed :: "bool \<Rightarrow> char list \<Rightarrow> char \<Rightarrow> bool" where
  "listed ic cs c = (c \<in> set cs \<or> (ic \<and> (lower_char c \<in> set cs \<or> upper_char c \<in> set cs)))"

fun in_cls :: "bool \<Rightarrow> cls \<Rightarrow> char \<Rightarrow> bool" where
  "in_cls ic (In cs) c = listed ic cs c"
| "in_cls ic (NotIn cs) c = (\<not> listed ic cs c)"

fun lit_ends :: "bool \<Rightarrow> string \<Rightarrow> cursor \<Rightarrow> cursor list" where
  "lit_ends ic [] cu = [cu]"
| "lit_ends ic (w # ws) (p, []) = []"
| "lit_ends ic (w # ws) (p, c # cs) =
     (if c = w \<or> (ic \<and> lower_char c = lower_char w) then lit_ends ic ws (Some c, cs) else [])"

text \<open>The cursors after zero, one, two, ... characters of the class, shortest run first.\<close>

fun run_ends :: "bool \<Rightarrow> cls \<Rightarrow> cursor \<Rightarrow> cursor list" where
  "run_ends ic k (p, []) = [(p, [])]"
| "run_ends ic k (p, c # cs) =
     (p, c # cs) # (if in_cls ic k c then run_ends ic k (Some c, cs) else [])"

definition is_word :: "char option \<Rightarrow> bool" where
  "is_word oc = (case oc of None \<Rightarrow> False | Some c \<Rightarrow> c \<in> set word_chars)"

definition next_char :: "string \<Rightarrow> char option" where
  "next_char s = (case s of [] \<Rightarrow> None | c # _ \<Rightarrow> Some c)"

fun ends :: "bool \<Rightarrow> rx \<Rightarrow> cursor \<Rightarrow> cursor list" where
  "ends ic (Lit w) cu = lit_ends ic w cu"
| "ends ic (One k) (p, s) =
     (case s of [] \<Rightarrow> [] | c # cs \<Rightarrow> if in_cls ic k c then [(Some c, cs)] else [])"
| "ends ic (Many k) cu = rev (run_ends ic k cu)"
| "ends ic (Many1 k) cu = rev (tl (run_ends ic k cu))"
| "ends ic (Few k) cu = run_ends ic k cu"
| "ends ic (Opt r) cu = ends ic r cu @ [cu]"
| "ends ic (Seq r1 r2) cu = concat (map (ends ic r2) (ends ic r1 cu))"
| "ends ic (Alt r1 r2) cu = ends ic r1 cu @ ends ic r2 cu"
| "ends ic WordB (p, s) = (if is_word p \<noteq> is_word (next_char s) then [(p, s)] else [])"

text \<open>The text matched at a cursor: \<open>None\<close> when the pattern does not match there.\<close>

definition match_at :: "bool \<Rightarrow> rx \<Rightarrow> cursor \<Rightarrow> string option" where
  "match_at ic r cu =
     (case ends ic r cu of
        [] \<Rightarrow> None
      | e # _ \<Rightarrow> Some (take (length (snd cu) - length (snd e)) (snd cu)))"

text \<open>\<^verbatim>\<open>re.search(pattern, text)\<close> as a truth value.\<close>

fun search_from :: "bool \<Rightarrow> rx \<Rightarrow> char option \<Rightarrow> string \<Rightarrow> bool" where
  "search_from ic r p [] = (match_at ic r (p, []) \<noteq> None)"
| "search_from ic r p (c # cs) = (match_at ic r (p, c # cs) \<noteq> None \<or> search_from ic r (Some c) cs)"

definition re_search :: "bool \<Rightarrow> rx \<Rightarrow> string \<Rightarrow> bool" where
  "re_search ic r s = search_from ic r None s"

text \<open>
  \<^verbatim>\<open>re.findall(pattern, text)\<close> for a pattern without capturing groups, or with one group
  around the whole pattern: the matches from left to right, without overlap. \<open>skip\<close> counts
  the characters of the last match that are still to be passed over. After an empty match
  the scan moves on by one character; no pattern of the program matches the empty text.
\<close>

fun findall_from :: "bool \<Rightarrow> rx \<Rightarrow> nat \<Rightarrow> char option \<Rightarrow> string \<Rightarrow> string list" where
  "findall_from ic r skip p [] =
     (if skip = 0 then (case match_at ic r (p, []) of None \<Rightarrow> [] | Some m \<Rightarrow> [m]) else [])"
| "findall_from ic r skip p (c # cs) =
     (if 0 < skip then findall_from ic r (skip - 1) (Some c) cs
      else case match_at ic r (p, c # cs) of
             None \<Rightarrow> findall_from ic r 0 (Some c) cs
           | Some m \<Rightarrow> m # findall_from ic r (length m - 1) (Some c) cs)"

definition re_findall :: "bool \<Rightarrow> rx \<Rightarrow> string \<Rightarrow> string list" where
  "re_findall ic r s = findall_from ic r 0 None s"

text \<open>\<^verbatim>\<open>re.sub(pattern, repl, text)\<close> for a literal replacement.\<close>

fun sub_from :: "bool \<Rightarrow> rx \<Rightarrow> string \<Rightarrow> nat \<Rightarrow> char option \<Rightarrow> string \<Rightarrow> string" where
  "sub_from ic r repl skip p [] =
     (if skip = 0 then (case match_at ic r (p, []) of None \<Rightarrow> [] | Some m \<Rightarrow> repl) else [])"
| "sub_from ic r repl skip p (c # cs) =
     (if 0 < skip then sub_from ic r repl (skip - 1) (Some c) cs
      else case match_at ic r (p, c # cs) of
             None \<Rightarrow> c # sub_from ic r repl 0 (Some c) cs
           | Some m \<Rightarrow>
               if m = [] then repl @ c # sub_from ic r repl 0 (Some c) cs
               else repl @ sub_from ic r repl (length m - 1) (Some c) cs)"

definition re_sub :: "bool \<Rightarrow> rx \<Rightarrow> string \<Rightarrow> string \<Rightarrow> string" where
  "re_sub ic r repl s = sub_from ic r repl 0 None s"

fun seqs :: "rx list \<Rightarrow> rx" where
  "seqs [] = Lit []"
| "seqs [r] = r"
| "seqs (r # rs) = Seq r (seqs rs)"

fun alts :: "rx list \<Rightarrow> rx" where
  "alts [] = One (In [])"
| "alts [r] = r"
| "alts (r # rs) = Alt r (alts rs)"

section \<open>Problem classifier and extractor (math_solver.py)\<close>

definition common_symbols :: "string list" where
  "common_symbols = [''x'', ''y'', ''z'', ''t'', ''a'', ''b'', ''c'', ''n'', ''k'', ''m'']"

text \<open>\<^verbatim>\<open>self.problem_patterns\<close>, in the insertion order of the dictionary, which is the order in
  which the loop of \<^verbatim>\<open>_identify_problem_type\<close> visits it.\<close>

definition problem_patterns :: "(string \<times> rx) list" where
  "problem_patterns =
    [(''equation'',
        seqs [alts [Lit ''solve'', Lit ''find'', Lit ''calculate''],
              Many1 (In whitespace), Few (NotIn [CHR 0x0A]), One (In ''='')]),
     (''derivative'',
        alts [Lit ''derivative'', Lit ''differentiate'', Lit ''d/dx'',
              Lit (u2202 @ ''/'' @ u2202)]),
     (''integral'', alts [Lit ''integral'', Lit ''integrate'', Lit u222B]),
     (''limit'', alts [Lit ''limit'', Lit ''lim'', Lit ''approaches'']),
     (''matrix'', alts [Lit ''matrix'', Lit ''determinant'', Lit ''eigenvalue'', Lit ''system'']),
     (''simplify'', alts [Lit ''simplify'', Lit ''reduce'', Lit ''factor'']),
     (''graph'', alts [Lit ''graph'', Lit ''plot'', Lit ''sketch'']),
     (''optimization'',
        alts [Lit ''maximum'', Lit ''minimum'', Lit ''optimize'', Lit ''extrema''])]"

text \<open>The loop \<^verbatim>\<open>for problem_type, pattern in self.problem_patterns.items()\<close> with its
  early return.\<close>

fun first_match :: "(string \<times> rx) list \<Rightarrow> string \<Rightarrow> string option" where
  "first_match [] text_lower = None"
| "first_match ((problem_type, pattern) # rest) text_lower =
     (if re_search True pattern text_lower then Some problem_type
      else first_match rest text_lower)"

definition identify_problem_type :: "string \<Rightarrow> string" where
  "identify_problem_type text =
     (let text_lower = lower text in
      case first_match problem_patterns text_lower of
        Some problem_type \<Rightarrow> problem_type
      | None \<Rightarrow>
          if sublist ''='' text \<and> list_ex (\<lambda>var. sublist var text) common_symbols
          then ''equation''
          else if list_ex (\<lambda>op. sublist op text) [''+'', ''-'', ''*'', ''/'', ''^'']
          then ''simplify''
          else ''general'')"

text \<open>The patterns of \<^verbatim>\<open>_extract_expressions\<close>.\<close>

definition instruction_words :: rx where
  "instruction_words =
     seqs [WordB,
           alts [Lit ''solve'', Lit ''find'', Lit ''calculate'', Lit ''determine'',
                 Lit ''compute'', Lit ''evaluate'', Lit ''simplify''],
           WordB]"

definition expr_chars :: string where
  "expr_chars = letters @ digits @ ''+-*/^()''"

definition equation_pattern :: rx where
  "equation_pattern =
     seqs [One (In letters), Many (In (expr_chars @ whitespace)), Lit ''='',
           Many (In whitespace), Many (In (expr_chars @ whitespace))]"

definition product_pattern :: rx where
  "product_pattern =
     seqs [Lit ''('', Many1 (In (expr_chars @ ''.'' @ whitespace)), Lit '')'',
           Lit ''('', Many1 (In (expr_chars @ ''.'' @ whitespace)), Lit '')'']"

definition general_pattern :: rx where
  "general_pattern =
     seqs [Many1 (In (expr_chars @ ''.'' @ whitespace)),
           Opt (Seq (Lit ''^'') (Many1 (In digits)))]"

definition coefficient_pattern :: rx where
  "coefficient_pattern = seqs [WordB, Many1 (In digits), One (In letters), WordB]"

definition function_pattern :: rx where
  "function_pattern =
     seqs [One (In letters), Lit ''('', Many1 (In (expr_chars @ '','' @ whitespace)), Lit '')'']"

definition fallback_patterns :: "rx list" where
  "fallback_patterns = [product_pattern, general_pattern, coefficient_pattern, function_pattern]"

text \<open>The loop \<^verbatim>\<open>for match in matches\<close>: every match is stripped and kept when it is longer
  than two characters.\<close>

fun append_candidates :: "string list \<Rightarrow> string list \<Rightarrow> string list" where
  "append_candidates expressions [] = expressions"
| "append_candidates expressions (m # matches) =
     (let cleaned = strip m in
      append_candidates (if 2 < py_len cleaned then expressions @ [cleaned] else expressions)
        matches)"

text \<open>The loop \<^verbatim>\<open>for pattern in patterns\<close>; its body has no \<^verbatim>\<open>break\<close>.\<close>

fun try_patterns :: "rx list \<Rightarrow> string \<Rightarrow> string list \<Rightarrow> string list" where
  "try_patterns [] cleaned_text expressions = expressions"
| "try_patterns (pattern # patterns) cleaned_text expressions =
     try_patterns patterns cleaned_text
       (append_candidates expressions (re_findall False pattern cleaned_text))"

text \<open>The loop that removes duplicates and keeps the order of the first occurrences.\<close>

fun unique_expressions :: "string set \<Rightarrow> string list \<Rightarrow> string list" where
  "unique_expressions seen [] = []"
| "unique_expressions seen (expr # expressions) =
     (if expr \<notin> seen then expr # unique_expressions (insert expr seen) expressions
      else unique_expressions seen expressions)"

definition extract_expressions :: "string \<Rightarrow> string list" where
  "extract_expressions text =
     (let cleaned_text = strip (re_sub True instruction_words [] text);
          equations = append_candidates [] (re_findall False equation_pattern cleaned_text);
          expressions =
            (if equations = [] then try_patterns fallback_patterns cleaned_text equations
             else equations)
      in unique_expressions {} expressions)"

text \<open>The text that the patterns are run on, and what one pattern contributes to the list of
  expressions.\<close>

definition cleaned_text_of :: "string \<Rightarrow> string" where
  "cleaned_text_of text = strip (re_sub True instruction_words [] text)"

definition candidates :: "rx \<Rightarrow> string \<Rightarrow> string list" where
  "candidates pattern cleaned_text = append_candidates [] (re_findall False pattern cleaned_text)"

text \<open>The extraction as the specification words it, for comparison with the source: the
  chain of fallback patterns stops at the first pattern that yields a candidate.\<close>

fun first_yield :: "rx list \<Rightarrow> string \<Rightarrow> string list" where
  "first_yield [] cleaned_text = []"
| "first_yield (pattern # patterns) cleaned_text =
     (if candidates pattern cleaned_text \<noteq> [] then candidates pattern cleaned_text
      else first_yield patterns cleaned_text)"

definition extract_expressions_stopping :: "string \<Rightarrow> string list" where
  "extract_expressions_stopping text =
     (let cleaned_text = cleaned_text_of text;
          equations = candidates equation_pattern cleaned_text;
          expressions =
            (if equations = [] then first_yield fallback_patterns cleaned_text else equations)
      in unique_expressions {} expressions)"

section \<open>Content validator (validators.py)\<close>

definition mathematical_keywords :: "string list" where
  "mathematical_keywords =
     [''solve'', ''equation'', ''calculate'', ''find'', ''prove'', ''show'', ''determine'',
      ''compute'', ''evaluate'', ''simplify'', ''algebra'', ''polynomial'', ''quadratic'',
      ''linear'', ''variable'', ''coefficient'', ''factor'', ''expand'', ''expression'',
      ''calculus'', ''derivative'', ''integral'', ''limit'', ''continuity'',
      ''differentiate'', ''integrate'', ''optimization'', ''chain rule'', ''geometry'',
      ''triangle'', ''circle'', ''angle'', ''area'', ''volume'', ''perimeter'',
      ''theorem'', ''proof'', ''coordinate'', ''vector'', ''trigonometry'', ''sin'',
      ''cos'', ''tan'', ''sine'', ''cosine'', ''tangent'', ''radian'', ''degree'',
      ''amplitude'', ''period'', ''frequency'', ''statistics'', ''probability'', ''mean'',
      ''median'', ''mode'', ''variance'', ''standard deviation'', ''distribution'',
      ''sample'', ''population'', ''correlation'', ''regression'', ''hypothesis'',
      ''matrix'', ''determinant'', ''eigenvalue'', ''eigenvector'', ''linear algebra'',
      ''differential equation'', ''partial derivative'', ''series'', ''sequence'',
      ''convergence'', ''divergence'', ''fourier'', ''laplace'', u222B, u2211, u220F,
      u2202, u2207, u2206, ''lim'', ''max'', ''min'', ''log'', ''ln'', u221A, u221E, u2264,
      u2265, u2260, u2248, u2208, u2209, u2282, u2286, u222A, u2229, ''meter'',
      ''centimeter'', ''kilometer'', ''gram'', ''kilogram'', ''second'', ''minute'',
      ''hour'', ''degree celsius'', ''fahrenheit'', ''kelvin'']"

definition italian_math_keywords :: "string list" where
  "italian_math_keywords =
     [''risolvere'', ''equazione'', ''calcolare'', ''trovare'', ''dimostrare'',
      ''determinare'', ''semplificare'', ''algebra'', ''geometria'', ''calcolo'',
      ''derivata'', ''integrale'', ''limite'', ''funzione'', ''grafico'', ''triangolo'',
      ''cerchio'', ''angolo'', ''area'', ''volume'', ''perimetro'', ''statistica'',
      ''probabilit'' @ u00E0, ''media'', ''mediana'', ''varianza'', ''matrice'',
      ''determinante'', ''vettore'', ''polinomio'', ''radice'']"

definition all_keywords :: "string list" where
  "all_keywords = mathematical_keywords @ italian_math_keywords"

definition forbidden_keywords :: "string list" where
  "forbidden_keywords =
     [''hack'', ''crack'', ''exploit'', ''malware'', ''virus'', ''password'', ''personal'',
      ''private'', ''confidential'', ''secret'', ''illegal'', ''violence'', ''weapon'',
      ''drug'', ''adult'', ''explicit'']"

text \<open>The loop of \<^verbatim>\<open>_contains_forbidden_content\<close> over the deny-list, with its early return.\<close>

fun forbidden_in :: "string list \<Rightarrow> string \<Rightarrow> bool" where
  "forbidden_in [] text_lower = False"
| "forbidden_in (keyword # keywords) text_lower =
     (if sublist keyword text_lower then True else forbidden_in keywords text_lower)"

definition contains_forbidden_content :: "string \<Rightarrow> bool" where
  "contains_forbidden_content text = (let text_lower = lower text in
     forbidden_in forbidden_keywords text_lower)"

text \<open>The pattern \<^verbatim>\<open>\b\w+\b\<close> of the word count and the list \<^verbatim>\<open>math_symbols\<close>.\<close>

definition word_pattern :: rx where
  "word_pattern = seqs [WordB, Many1 (In word_chars), WordB]"

definition math_symbols :: "rx list" where
  "math_symbols =
     [seqs [Many1 (In digits), Many (In whitespace), One (In ''+-*/=''), Many (In whitespace),
            Many1 (In digits)],
      seqs [One (In ''xy''), Many (In whitespace), One (In ''+-''), Many (In whitespace),
            Many1 (In digits)],
      seqs [WordB, Many1 (In digits), Lit ''x'', WordB],
      seqs [One (In lower_letters), Lit ''('', Many1 (In word_chars), Lit '')''],
      seqs [WordB, Many1 (In digits), Lit ''/'', Many1 (In digits), WordB],
      seqs [Lit ''^'', Many1 (In digits)],
      seqs [Lit u221A, Many1 (In digits)],
      alts [Lit u222B, Lit u2211, Lit u220F, Lit u2202, Lit u2207, Lit u2206],
      alts [Lit u2264, Lit u2265, Lit u2260, Lit u2248, Lit u2208, Lit u2209, Lit u2282,
            Lit u2286, Lit u222A, Lit u2229]]"

text \<open>The two counting loops of \<^verbatim>\<open>_calculate_mathematical_score\<close>. Python computes the score
  in floating point; the model computes it in \<^typ>\<open>real\<close>.\<close>

fun count_keywords :: "string list \<Rightarrow> string \<Rightarrow> real \<Rightarrow> real" where
  "count_keywords [] text_lower math_word_count = math_word_count"
| "count_keywords (keyword # keywords) text_lower math_word_count =
     count_keywords keywords text_lower
       (if sublist keyword text_lower
        then (let weight = real (py_len keyword) / 10 + 1
              in math_word_count + real (count_sub keyword text_lower) * weight)
        else math_word_count)"

fun count_symbols :: "rx list \<Rightarrow> string \<Rightarrow> nat \<Rightarrow> nat" where
  "count_symbols [] text symbol_count = symbol_count"
| "count_symbols (pattern # patterns) text symbol_count =
     count_symbols patterns text (symbol_count + length (re_findall False pattern text) * 2)"

definition calculate_mathematical_score :: "string \<Rightarrow> real" where
  "calculate_mathematical_score text =
     (if text = [] then 0
      else let text_lower = lower text;
               words = re_findall False word_pattern text_lower
           in if words = [] then 0
              else let math_word_count = count_keywords all_keywords text_lower 0;
                       symbol_count = count_symbols math_symbols text 0;
                       total_score = math_word_count + real symbol_count;
                       max_possible_score = real (length words) * 0.5
                   in if 0 < max_possible_score then min (total_score / max_possible_score) 1
                      else 0)"

text \<open>The reasons returned by the validation functions; a reason that the source formats
  with the score or the file size carries that number.\<close>

datatype reason =
    File_not_found
  | File_too_large real
  | No_text_content
  | Inappropriate_file_content
  | Inappropriate_text_content
  | Empty_content
  | Insufficient_content real
  | Valid_content real

text \<open>\<^verbatim>\<open>validate_mathematical_content_text\<close>, which math_solver.py adds to the validator.\<close>

definition validate_mathematical_content_text :: "string \<Rightarrow> bool \<times> reason" where
  "validate_mathematical_content_text text =
     (if text = [] \<or> strip text = [] then (False, Empty_content)
      else if contains_forbidden_content text then (False, Inappropriate_text_content)
      else let math_score = calculate_mathematical_score text
           in if math_score < 0.1 then (False, Insufficient_content math_score)
              else (True, Valid_content math_score))"

text \<open>What \<^verbatim>\<open>validate_mathematical_content\<close> reads from the file system: whether the path
  exists, the size in bytes, and the result of \<^verbatim>\<open>_extract_text_content\<close>, which is \<open>None\<close>
  for an unsupported type and for a failed extraction.\<close>

record file_state =
  file_exists :: bool
  size_bytes :: nat
  text_content :: "string option"

definition validate_mathematical_content :: "file_state \<Rightarrow> bool \<times> reason" where
  "validate_mathematical_content f =
     (if \<not> file_exists f then (False, File_not_found)
      else let file_size = real (size_bytes f) / (1024 * 1024)
           in if 50 < file_size then (False, File_too_large file_size)
              else case text_content f of
                     None \<Rightarrow> (False, No_text_content)
                   | Some text \<Rightarrow>
                       if text = [] then (False, No_text_content)
                       else if contains_forbidden_content text
                       then (False, Inappropriate_file_content)
                       else let math_score = calculate_mathematical_score text
                            in if math_score < 0.1 then (False, Insufficient_content math_score)
                               else (True, Valid_content math_score))"

section \<open>Solving (math_solver.py)\<close>

text \<open>\<^verbatim>\<open>_preprocess_text\<close>: runs of whitespace become one space, then the table of
  replacements is applied in its order.\<close>

definition replacements :: "(string \<times> string) list" where
  "replacements =
     [(u00D7, ''*''), (u00F7, ''/''), (u00B2, ''^2''), (u00B3, ''^3''), (u221A, ''sqrt''),
      (u221E, ''oo''), (u2264, ''<=''), (u2265, ''>=''), (u2260, ''!=''), (u00B1, ''+/-''),
      (u03C0, ''pi''), (u03B1, ''alpha''), (u03B2, ''beta''), (u03B3, ''gamma''),
      (u03B8, ''theta''), (u03BB, ''lambda''), (u03BC, ''mu''), (u03C3, ''sigma''),
      (u0394, ''Delta''), (u2202, ''d'')]"

fun replace_each :: "(string \<times> string) list \<Rightarrow> string \<Rightarrow> string" where
  "replace_each [] text = text"
| "replace_each ((old, new) # rest) text = replace_each rest (replace old new text)"

definition preprocess_text :: "string \<Rightarrow> string" where
  "preprocess_text text =
     replace_each replacements (re_sub False (Many1 (In whitespace)) '' '' (strip text))"

definition is_mathematical_problem :: "string \<Rightarrow> bool" where
  "is_mathematical_problem text = fst (validate_mathematical_content_text text)"

text \<open>The dictionary that a \<^verbatim>\<open>_solve_...\<close> method returns; a key that is absent reads as the
  default that \<^verbatim>\<open>solve_problem\<close> gives to \<^verbatim>\<open>get\<close>.\<close>

record solve_outcome =
  so_success :: bool
  so_solution :: string
  so_steps :: "string list"
  so_error :: string

text \<open>The methods that call SymPy are parameters of the model: each maps the expressions
  and the context to its dictionary, or raises (\<open>Inl\<close> with the message).\<close>

record sympy_solvers =
  solve_equation :: "string list \<Rightarrow> string \<Rightarrow> string + solve_outcome"
  solve_derivative :: "string list \<Rightarrow> string \<Rightarrow> string + solve_outcome"
  solve_integral :: "string list \<Rightarrow> string \<Rightarrow> string + solve_outcome"
  solve_simplify :: "string list \<Rightarrow> string \<Rightarrow> string + solve_outcome"
  solve_general :: "string list \<Rightarrow> string \<Rightarrow> string + solve_outcome"

definition failed_outcome :: "string \<Rightarrow> solve_outcome" where
  "failed_outcome msg =
     \<lparr>so_success = False, so_solution = [], so_steps = [], so_error = msg\<rparr>"

definition solve_limit :: "string list \<Rightarrow> string \<Rightarrow> string + solve_outcome" where
  "solve_limit expressions context = Inr (failed_outcome ''Limit solving not yet implemented'')"

definition solve_matrix :: "string list \<Rightarrow> string \<Rightarrow> string + solve_outcome" where
  "solve_matrix expressions context = Inr (failed_outcome ''Matrix solving not yet implemented'')"

definition solve_optimization :: "string list \<Rightarrow> string \<Rightarrow> string + solve_outcome" where
  "solve_optimization expressions context =
     Inr (failed_outcome ''Optimization solving not yet implemented'')"

definition solve_by_type ::
  "sympy_solvers \<Rightarrow> string \<Rightarrow> string list \<Rightarrow> string \<Rightarrow> solve_outcome" where
  "solve_by_type sy problem_type expressions context =
     (case (if problem_type = ''equation'' then solve_equation sy expressions context
            else if problem_type = ''derivative'' then solve_derivative sy expressions context
            else if problem_type = ''integral'' then solve_integral sy expressions context
            else if problem_type = ''limit'' then solve_limit expressions context
            else if problem_type = ''matrix'' then solve_matrix expressions context
            else if problem_type = ''simplify'' then solve_simplify sy expressions context
            else if problem_type = ''optimization'' then solve_optimization expressions context
            else solve_general sy expressions context) of
        Inr outcome \<Rightarrow> outcome
      | Inl e \<Rightarrow> failed_outcome (''Error solving '' @ problem_type @ '' problem: '' @ e))"

text \<open>The result of \<^verbatim>\<open>solve_problem\<close>, without the time stamps.\<close>

record solution_result =
  sr_success :: bool
  sr_problem_type :: string
  sr_original_text :: string
  sr_expressions :: "string list"
  sr_solution :: string
  sr_steps :: "string list"
  sr_error_message :: string
  sr_file_name :: string

definition create_error_result :: "string \<Rightarrow> string \<Rightarrow> string \<Rightarrow> solution_result" where
  "create_error_result error_message original_text file_name =
     \<lparr>sr_success = False, sr_problem_type = ''unknown'', sr_original_text = original_text,
      sr_expressions = [], sr_solution = [], sr_steps = [], sr_error_message = error_message,
      sr_file_name = file_name\<rparr>"

definition solve_problem :: "sympy_solvers \<Rightarrow> string \<Rightarrow> string \<Rightarrow> solution_result" where
  "solve_problem sy problem_text file_name =
     (if \<not> is_mathematical_problem problem_text
      then create_error_result ''Content does not appear to be a mathematical problem''
             problem_text file_name
      else let cleaned_text = preprocess_text problem_text;
               problem_type = identify_problem_type cleaned_text;
               expressions = extract_expressions cleaned_text
           in if expressions = []
              then create_error_result
                     ''Could not extract mathematical expressions from the problem''
                     problem_text file_name
              else let outcome = solve_by_type sy problem_type expressions cleaned_text
                   in \<lparr>sr_success = so_success outcome, sr_problem_type = problem_type,
                       sr_original_text = problem_text, sr_expressions = expressions,
                       sr_solution = so_solution outcome, sr_steps = so_steps outcome,
                       sr_error_message = so_error outcome, sr_file_name = file_name\<rparr>)"

section \<open>Orchestrator (scheduler_service.py)\<close>

text \<open>A file description is the dictionary that discovery builds.\<close>

type_synonym file_info = "string \<rightharpoonup> string"

record solution_info =
  problem_name :: string
  status :: string
  solution_url :: string

datatype item_error =
    Download_failed
  | Safety_failed string
  | Content_failed string
  | No_text_extracted
  | Solve_failed string
  | Upload_failed
  | Processing_error string
  | Raised string

text \<open>The dictionary that describes the processing of one file; a key that a branch of
  the source does not set is \<open>None\<close>.\<close>

record item_result =
  res_success :: bool
  res_file_name :: string
  res_error :: "item_error option"
  res_solution_attempt :: "solution_result option"
  res_solution_data :: "solution_result option"
  res_solution_result :: "solution_result option"
  res_solution_info :: "solution_info option"

definition failure :: "string \<Rightarrow> item_error \<Rightarrow> item_result" where
  "failure name e =
     \<lparr>res_success = False, res_file_name = name, res_error = Some e,
      res_solution_attempt = None, res_solution_data = None, res_solution_result = None,
      res_solution_info = None\<rparr>"

text \<open>
  The collaborators, as the orchestrator sees them. Discovery raises on a failed request
  (\<open>Inl\<close> with the message). \<^verbatim>\<open>upload_solution\<close> catches the exceptions of the GitHub client
  only, so it returns a truth value or raises. The other methods catch every exception and
  return a value. \<open>clock\<close> is the time stamp that \<^verbatim>\<open>datetime.now()\<close> gives.
\<close>

record services =
  get_new_files_since :: "string + file_info list"
  download_file :: "file_info \<Rightarrow> string \<Rightarrow> bool"
  validate_file_safety :: "string \<Rightarrow> bool \<times> string"
  validate_content :: "string \<Rightarrow> bool \<times> string"
  extract_text_from_file :: "string \<Rightarrow> string option"
  solve :: "string \<Rightarrow> string \<Rightarrow> solution_result"
  upload_solution :: "string \<Rightarrow> solution_result \<Rightarrow> string + bool"
  update_main_page :: "solution_info \<Rightarrow> bool"
  send_solution_notification :: "string \<Rightarrow> solution_result \<Rightarrow> string \<Rightarrow> bool"
  clock :: string

record stats =
  total_runs :: nat
  successful_runs :: nat
  failed_runs :: nat
  problems_solved :: nat
  problems_failed :: nat
  last_run :: "string option"
  last_success :: "string option"
  last_error :: "string option"

text \<open>A call of \<^verbatim>\<open>_trigger_callbacks\<close> is recorded as an event; the exceptions of the
  callbacks are caught there.\<close>

datatype event =
    On_new_problem file_info
  | On_solution_complete item_result
  | On_error item_result

record scheduler =
  sched_stats :: stats
  fired :: "event list"

definition trigger_callbacks :: "event \<Rightarrow> scheduler \<Rightarrow> scheduler" where
  "trigger_callbacks ev st = st\<lparr>fired := fired st @ [ev]\<rparr>"

text \<open>The body of the \<^verbatim>\<open>try\<close> of \<^verbatim>\<open>process_single_problem\<close> after the callback. The
  values that \<^verbatim>\<open>update_main_page\<close> and \<^verbatim>\<open>send_solution_notification\<close> return are not read.
  An exception of \<^verbatim>\<open>upload_solution\<close> is caught by the \<^verbatim>\<open>except\<close> of the method.\<close>

definition pipeline :: "services \<Rightarrow> file_info \<Rightarrow> string \<Rightarrow> item_result" where
  "pipeline sv file_info file_name =
     (let temp_file_path = ''temp_files/'' @ file_name
      in if \<not> download_file sv file_info temp_file_path
         then failure file_name Download_failed
         else case validate_file_safety sv temp_file_path of (is_safe, safety_reason) \<Rightarrow>
         if \<not> is_safe then failure file_name (Safety_failed safety_reason)
         else case validate_content sv temp_file_path of (is_math, math_reason) \<Rightarrow>
         if \<not> is_math then failure file_name (Content_failed math_reason)
         else case extract_text_from_file sv temp_file_path of
           None \<Rightarrow> failure file_name No_text_extracted
         | Some content \<Rightarrow>
         if content = [] then failure file_name No_text_extracted
         else let solution_result = solve sv content file_name
         in if \<not> sr_success solution_result
            then (failure file_name (Solve_failed (sr_error_message solution_result)))
                   \<lparr>res_solution_attempt := Some solution_result\<rparr>
            else case upload_solution sv file_name solution_result of
              Inl e \<Rightarrow> failure file_name (Processing_error e)
            | Inr upload_success \<Rightarrow>
            if \<not> upload_success
            then (failure file_name Upload_failed)\<lparr>res_solution_data := Some solution_result\<rparr>
            else let solution_info =
                       \<lparr>problem_name = file_name, status = ''Solved Successfully'',
                        solution_url =
                          ''solutions/solution_'' @ file_name @ ''_'' @ clock sv @ ''.md''\<rparr>;
                     page_updated = update_main_page sv solution_info;
                     notified = send_solution_notification sv file_name solution_result
                                  (solution_url solution_info)
                 in \<lparr>res_success = True, res_file_name = file_name, res_error = None,
                     res_solution_attempt = None, res_solution_data = None,
                     res_solution_result = Some solution_result,
                     res_solution_info = Some solution_info\<rparr>)"

text \<open>\<^verbatim>\<open>process_single_problem\<close>. \<open>Inl\<close> is an exception that leaves the method: the lookup
  \<^verbatim>\<open>file_info['name']\<close> stands before the \<^verbatim>\<open>try\<close>.\<close>

definition process_single_problem ::
  "services \<Rightarrow> file_info \<Rightarrow> scheduler \<Rightarrow> (string + item_result) \<times> scheduler" where
  "process_single_problem sv file_info st =
     (case file_info ''name'' of
        None \<Rightarrow> (Inl ''name'', st)
      | Some file_name \<Rightarrow>
          let st = trigger_callbacks (On_new_problem file_info) st
          in (Inr (pipeline sv file_info file_name), st))"

text \<open>The loop \<^verbatim>\<open>for file_info in new_files\<close> with its \<^verbatim>\<open>try\<close> around every file.\<close>

record tally =
  processed_count :: nat
  error_count :: nat
  results :: "item_result list"

definition bump_solved :: "scheduler \<Rightarrow> scheduler" where
  "bump_solved st =
     st\<lparr>sched_stats := (sched_stats st)\<lparr>problems_solved := problems_solved (sched_stats st) + 1\<rparr>\<rparr>"

definition bump_failed :: "scheduler \<Rightarrow> scheduler" where
  "bump_failed st =
     st\<lparr>sched_stats := (sched_stats st)\<lparr>problems_failed := problems_failed (sched_stats st) + 1\<rparr>\<rparr>"

definition process_one :: "services \<Rightarrow> file_info \<Rightarrow> tally \<times> scheduler \<Rightarrow> tally \<times> scheduler" where
  "process_one sv file_info ts =
     (case ts of (t, st) \<Rightarrow>
      case process_single_problem sv file_info st of
        (Inr result, st) \<Rightarrow>
          let t = t\<lparr>results := results t @ [result]\<rparr>
          in if res_success result
             then (t\<lparr>processed_count := processed_count t + 1\<rparr>,
                   trigger_callbacks (On_solution_complete result) (bump_solved st))
             else (t\<lparr>error_count := error_count t + 1\<rparr>,
                   trigger_callbacks (On_error result) (bump_failed st))
      | (Inl e, st) \<Rightarrow>
          let error_result =
                failure (case file_info ''name'' of None \<Rightarrow> ''unknown'' | Some n \<Rightarrow> n) (Raised e)
          in (t\<lparr>error_count := error_count t + 1, results := results t @ [error_result]\<rparr>,
              trigger_callbacks (On_error error_result) (bump_failed st)))"

fun process_files :: "services \<Rightarrow> file_info list \<Rightarrow> tally \<times> scheduler \<Rightarrow> tally \<times> scheduler" where
  "process_files sv [] ts = ts"
| "process_files sv (file_info # new_files) ts =
     process_files sv new_files (process_one sv file_info ts)"

record run_summary =
  sum_success :: bool
  sum_new_files :: nat
  sum_processed :: nat
  sum_errors :: nat
  sum_error :: "string option"
  sum_results :: "item_result list"

definition check_and_process_new_problems ::
  "services \<Rightarrow> scheduler \<Rightarrow> run_summary \<times> scheduler" where
  "check_and_process_new_problems sv st0 =
     (let run_start_time = clock sv;
          st = st0\<lparr>sched_stats := (sched_stats st0)
                 \<lparr>total_runs := total_runs (sched_stats st0) + 1,
                  last_run := Some run_start_time\<rparr>\<rparr>
      in case get_new_files_since sv of
           Inl e \<Rightarrow>
             (\<lparr>sum_success = False, sum_new_files = 0, sum_processed = 0, sum_errors = 1,
               sum_error = Some e, sum_results = []\<rparr>,
              st\<lparr>sched_stats := (sched_stats st)
                   \<lparr>failed_runs := failed_runs (sched_stats st) + 1, last_error := Some e\<rparr>\<rparr>)
         | Inr new_files \<Rightarrow>
             if new_files = []
             then (\<lparr>sum_success = True, sum_new_files = 0, sum_processed = 0, sum_errors = 0,
                    sum_error = None, sum_results = []\<rparr>, st)
             else case process_files sv new_files
                         (\<lparr>processed_count = 0, error_count = 0, results = []\<rparr>, st) of
                    (t, st) \<Rightarrow>
                      (\<lparr>sum_success = True, sum_new_files = length new_files,
                        sum_processed = processed_count t, sum_errors = error_count t,
                        sum_error = None, sum_results = results t\<rparr>,
                       if error_count t = 0
                       then st\<lparr>sched_stats := (sched_stats st)
                                \<lparr>successful_runs := successful_runs (sched_stats st) + 1,
                                 last_success := Some run_start_time\<rparr>\<rparr>
                       else st\<lparr>sched_stats := (sched_stats st)
                                \<lparr>failed_runs := failed_runs (sched_stats st) + 1\<rparr>\<rparr>))"

definition manual_trigger :: "services \<Rightarrow> scheduler \<Rightarrow> run_summary \<times> scheduler" where
  "manual_trigger sv st = check_and_process_new_problems sv st"

text \<open>What the loop records for one file, and the events that it fires for it.\<close>

definition recorded :: "services \<Rightarrow> file_info \<Rightarrow> item_result" where
  "recorded sv file_info =
     (case file_info ''name'' of
        None \<Rightarrow> failure ''unknown'' (Raised ''name'')
      | Some file_name \<Rightarrow> pipeline sv file_info file_name)"

definition events_of :: "services \<Rightarrow> file_info \<Rightarrow> event list" where
  "events_of sv file_info =
     (case file_info ''name'' of None \<Rightarrow> [] | Some _ \<Rightarrow> [On_new_problem file_info])
     @ [if res_success (recorded sv file_info) then On_solution_complete (recorded sv file_info)
        else On_error (recorded sv file_info)]"

fun is_on_error :: "event \<Rightarrow> bool" where
  "is_on_error (On_error _) = True"
| "is_on_error _ = False"

fun is_on_solution_complete :: "event \<Rightarrow> bool" where
  "is_on_solution_complete (On_solution_complete _) = True"
| "is_on_solution_complete _ = False"

text \<open>The events that a run has fired: those added to the log of the state before it.\<close>

definition fired_during :: "scheduler \<Rightarrow> scheduler \<Rightarrow> event list" where
  "fired_during before after = drop (length (fired before)) (fired after)"

text \<open>Collaborators for the examples: every file downloads, a file named \<^verbatim>\<open>virus.exe\<close> fails
  the safety validation, every other file is solved; discovery, the upload, the update of the
  main page and the notification behave as given.\<close>

definition solved :: "string \<Rightarrow> string \<Rightarrow> solution_result" where
  "solved text name =
     \<lparr>sr_success = True, sr_problem_type = ''equation'', sr_original_text = text,
      sr_expressions = [''x^2 - 4 = 0''], sr_solution = ''x = -2, x = 2'', sr_steps = [],
      sr_error_message = [], sr_file_name = name\<rparr>"

definition example_services ::
  "string + file_info list \<Rightarrow> string + bool \<Rightarrow> bool \<Rightarrow> bool \<Rightarrow> services" where
  "example_services discovery upload page_ok mail_ok =
     \<lparr>get_new_files_since = discovery,
      download_file = (\<lambda>file_info path. True),
      validate_file_safety =
        (\<lambda>path. if path = ''temp_files/virus.exe''
                then (False, ''Unsafe file extension: .exe'')
                else (True, ''File is safe to process'')),
      validate_content = (\<lambda>path. (True, ''Valid mathematical content'')),
      extract_text_from_file = (\<lambda>path. Some ''Solve x^2 - 4 = 0''),
      solve = solved,
      upload_solution = (\<lambda>name solution. upload),
      update_main_page = (\<lambda>info. page_ok),
      send_solution_notification = (\<lambda>name solution url. mail_ok),
      clock = ''20240101_120000''\<rparr>"

definition example_scheduler :: scheduler where
  "example_scheduler =
     \<lparr>sched_stats = \<lparr>total_runs = 0, successful_runs = 0, failed_runs = 0, problems_solved = 0,
                     problems_failed = 0, last_run = None, last_success = None,
                     last_error = None\<rparr>,
      fired = []\<rparr>"

definition successes :: "services \<Rightarrow> file_info list \<Rightarrow> nat" where
  "successes sv files = length (filter (\<lambda>f. res_success (recorded sv f)) files)"

definition failures :: "services \<Rightarrow> file_info list \<Rightarrow> nat" where
  "failures sv files = length (filter (\<lambda>f. \<not> res_success (recorded sv f)) files)"

definition problem_txt :: file_info where
  "problem_txt = [''name'' \<mapsto> ''problem.txt'']"

definition virus_exe :: file_info where
  "virus_exe = [''name'' \<mapsto> ''virus.exe'']"

text \<open>Collaborators that upload the solution and then fail to update the main page and to
  send the notification.\<close>

definition undelivered_services :: services where
  "undelivered_services = example_services (Inr [problem_txt]) (Inr True) False False"

text \<open>SymPy methods for the examples: each of them succeeds.\<close>

definition example_solvers :: sympy_solvers where
  "example_solvers =
     (let ok = (\<lambda>expressions context.
                  Inr \<lparr>so_success = True, so_solution = ''solved'', so_steps = [], so_error = []\<rparr>)
      in \<lparr>solve_equation = ok, solve_derivative = ok, solve_integral = ok,
          solve_simplify = ok, solve_general = ok\<rparr>)"

definition not_implemented :: "string set" where
  "not_implemented =
     {''Limit solving not yet implemented'', ''Matrix solving not yet implemented'',
      ''Optimization solving not yet implemented''}"

section \<open>Properties of the content validator\<close>

lemma count_keywords_nonneg: "0 \<le> acc \<Longrightarrow> 0 \<le> count_keywords ks t acc"
  by (induction ks arbitrary: acc) (auto simp: Let_def)

lemma forbidden_in_iff: "forbidden_in ks t \<longleftrightarrow> (\<exists>k \<in> set ks. sublist k t)"
  by (induction ks) auto

text \<open>
  C7: for every text the relevance score lies in the closed interval from 0 to 1; the score
  of the empty text is 0, and so is the score of every text in which the word pattern
  finds no word.
\<close>

theorem score_in_unit_interval:
  "0 \<le> calculate_mathematical_score text \<and> calculate_mathematical_score text \<le> 1
   \<and> calculate_mathematical_score [] = 0
   \<and> (re_findall False word_pattern (lower text) = []
        \<longrightarrow> calculate_mathematical_score text = 0)"
proof -
  have k: "0 \<le> count_keywords all_keywords (lower text) 0"
    by (rule count_keywords_nonneg) simp
  have lo: "0 \<le> calculate_mathematical_score text"
    using k by (simp add: calculate_mathematical_score_def Let_def)
  have hi: "calculate_mathematical_score text \<le> 1"
    by (simp add: calculate_mathematical_score_def Let_def)
  have e: "calculate_mathematical_score [] = 0"
    by (simp add: calculate_mathematical_score_def)
  have w: "re_findall False word_pattern (lower text) = []
             \<longrightarrow> calculate_mathematical_score text = 0"
    by (simp add: calculate_mathematical_score_def Let_def)
  from lo hi e w show ?thesis by blast
qed

theorem score_in_unit_interval_witness:
  "re_findall False word_pattern (lower ''+-'') = [] \<and> calculate_mathematical_score ''+-'' = 0"
proof -
  have h: "re_findall False word_pattern (lower ''+-'') = []" by code_simp
  with score_in_unit_interval [of "''+-''"] show ?thesis by blast
qed

text \<open>
  C8: the forbidden-content check holds for a text exactly when the lowercased text contains
  a keyword of the deny-list, so two texts that differ in letter case only get the same
  verdict. The verdict does not depend on the score: a text with a forbidden keyword is
  rejected by both validation functions before the score is computed. The text
  "How to hack into systems" is flagged.
\<close>

theorem forbidden_check_case_insensitive:
  "(contains_forbidden_content text
      \<longleftrightarrow> (\<exists>k \<in> set forbidden_keywords. sublist k (lower text)))
   \<and> (lower text' = lower text
        \<longrightarrow> contains_forbidden_content text' = contains_forbidden_content text)
   \<and> (contains_forbidden_content text \<longrightarrow>
        \<not> fst (validate_mathematical_content_text text)
        \<and> (\<forall>f. text_content f = Some text \<longrightarrow> \<not> fst (validate_mathematical_content f)))
   \<and> contains_forbidden_content ''How to hack into systems''"
proof -
  have a: "contains_forbidden_content text
             \<longleftrightarrow> (\<exists>k \<in> set forbidden_keywords. sublist k (lower text))"
    by (simp add: contains_forbidden_content_def forbidden_in_iff)
  have b: "lower text' = lower text
             \<longrightarrow> contains_forbidden_content text' = contains_forbidden_content text"
    by (simp add: contains_forbidden_content_def)
  have c1: "contains_forbidden_content text \<longrightarrow> \<not> fst (validate_mathematical_content_text text)"
    by (simp add: validate_mathematical_content_text_def)
  have c2: "contains_forbidden_content text \<longrightarrow>
        (\<forall>f. text_content f = Some text \<longrightarrow> \<not> fst (validate_mathematical_content f))"
    by (simp add: validate_mathematical_content_def Let_def)
  have d: "contains_forbidden_content ''How to hack into systems''"
    by code_simp
  from a b c1 c2 d show ?thesis by blast
qed

theorem forbidden_check_case_insensitive_witness:
  "lower ''Solve X^2 = 4 and HACK'' = lower ''solve x^2 = 4 and hack''
   \<and> contains_forbidden_content ''Solve X^2 = 4 and HACK''
   \<and> \<not> fst (validate_mathematical_content_text ''Solve X^2 = 4 and HACK'')
   \<and> \<not> fst (validate_mathematical_content
        \<lparr>file_exists = True, size_bytes = 22, text_content = Some ''Solve X^2 = 4 and HACK''\<rparr>)"
proof -
  have l: "lower ''Solve X^2 = 4 and HACK'' = lower ''solve x^2 = 4 and hack''" by code_simp
  have h: "contains_forbidden_content ''solve x^2 = 4 and hack''" by code_simp
  have t: "text_content \<lparr>file_exists = True, size_bytes = 22,
                         text_content = Some ''Solve X^2 = 4 and HACK''\<rparr>
             = Some ''Solve X^2 = 4 and HACK''" by simp
  from forbidden_check_case_insensitive
         [of "''solve x^2 = 4 and hack''" "''Solve X^2 = 4 and HACK''"] l h
  have h': "contains_forbidden_content ''Solve X^2 = 4 and HACK''" by blast
  from forbidden_check_case_insensitive
         [of "''Solve X^2 = 4 and HACK''" "''Solve X^2 = 4 and HACK''"] h' t l
  show ?thesis by blast
qed

section \<open>Properties of the classifier and the extractor\<close>

lemma first_match_at:
  "i < length ps \<Longrightarrow> re_search True (snd (ps ! i)) t \<Longrightarrow>
   (\<forall>j<i. \<not> re_search True (snd (ps ! j)) t) \<Longrightarrow> first_match ps t = Some (fst (ps ! i))"
proof (induction ps arbitrary: i)
  case Nil
  then show ?case by simp
next
  case (Cons p ps)
  obtain ty pat where p: "p = (ty, pat)" by (cases p)
  show ?case
  proof (cases i)
    case 0
    with Cons.prems p show ?thesis by simp
  next
    case (Suc k)
    from Cons.prems(3) Suc have "\<not> re_search True (snd ((p # ps) ! 0)) t" by blast
    then have n: "\<not> re_search True pat t" using p by simp
    have "\<forall>j<k. \<not> re_search True (snd (ps ! j)) t"
    proof (intro allI impI)
      fix j assume "j < k"
      then have "Suc j < i" using Suc by simp
      with Cons.prems(3) have "\<not> re_search True (snd ((p # ps) ! Suc j)) t" by blast
      then show "\<not> re_search True (snd (ps ! j)) t" by simp
    qed
    with Cons.IH [of k] Cons.prems Suc have "first_match ps t = Some (fst (ps ! k))" by simp
    with n p Suc show ?thesis by simp
  qed
qed

lemma first_match_none:
  "(\<forall>i<length ps. \<not> re_search True (snd (ps ! i)) t) \<Longrightarrow> first_match ps t = None"
proof (induction ps)
  case Nil
  then show ?case by simp
next
  case (Cons p ps)
  obtain ty pat where p: "p = (ty, pat)" by (cases p)
  from Cons.prems have "\<not> re_search True (snd ((p # ps) ! 0)) t" by blast
  then have n: "\<not> re_search True pat t" using p by simp
  have "\<forall>i<length ps. \<not> re_search True (snd (ps ! i)) t"
  proof (intro allI impI)
    fix i assume "i < length ps"
    then have "Suc i < length (p # ps)" by simp
    with Cons.prems have "\<not> re_search True (snd ((p # ps) ! Suc i)) t" by blast
    then show "\<not> re_search True (snd (ps ! i)) t" by simp
  qed
  with Cons.IH have "first_match ps t = None" by simp
  with n p show ?case by simp
qed

lemma append_candidates_acc:
  "append_candidates acc ms = acc @ append_candidates [] ms"
proof (induction ms arbitrary: acc)
  case Nil
  then show ?case by simp
next
  case (Cons m ms)
  show ?case
    using Cons.IH [of "acc @ [strip m]"] Cons.IH [of "[strip m]"] Cons.IH [of acc]
    by (simp add: Let_def)
qed

lemma try_patterns_concat:
  "try_patterns ps t acc = acc @ concat (map (\<lambda>p. candidates p t) ps)"
proof (induction ps arbitrary: acc)
  case Nil
  then show ?case by simp
next
  case (Cons p ps)
  have "append_candidates acc (re_findall False p t) = acc @ candidates p t"
    unfolding candidates_def by (rule append_candidates_acc)
  with Cons.IH show ?case by simp
qed

lemma set_unique_expressions: "set (unique_expressions seen xs) = set xs - seen"
  by (induction xs arbitrary: seen) auto

lemma distinct_unique_expressions: "distinct (unique_expressions seen xs)"
  by (induction xs arbitrary: seen) (auto simp: set_unique_expressions)

lemma append_candidates_filter:
  "append_candidates [] ms = filter (\<lambda>c. 2 < py_len c) (map strip ms)"
proof (induction ms)
  case Nil
  then show ?case by simp
next
  case (Cons m ms)
  show ?case
    using append_candidates_acc [of "[strip m]" ms] Cons.IH
    by (simp add: Let_def)
qed

lemma candidates_filter:
  "candidates p t = filter (\<lambda>c. 2 < py_len c) (map strip (re_findall False p t))"
  by (simp add: candidates_def append_candidates_filter)

lemma remdups_snoc: "remdups (ys @ [x]) = remdups (filter (\<lambda>y. y \<noteq> x) ys) @ [x]"
  by (induction ys) auto

lemma unique_expressions_eq:
  "unique_expressions seen xs = rev (remdups (rev (filter (\<lambda>x. x \<notin> seen) xs)))"
proof (induction xs arbitrary: seen)
  case Nil
  then show ?case by simp
next
  case (Cons x xs)
  show ?case
  proof (cases "x \<in> seen")
    case True
    then show ?thesis by (simp add: Cons.IH)
  next
    case False
    have f: "filter (\<lambda>y. y \<noteq> x) (rev (filter (\<lambda>y. y \<notin> seen) xs))
               = rev (filter (\<lambda>y. y \<notin> insert x seen) xs)"
      by (simp add: rev_filter [symmetric] conj_commute)
    from False show ?thesis
      by (simp add: Cons.IH remdups_snoc f)
  qed
qed

text \<open>
  C6: the categories are tried in the order equation, derivative, integral, limit, matrix,
  simplify, graph, optimization, and the classification of a text is the first category of
  that order whose pattern is found in the lowercased text, whatever else the text contains.
  When no pattern is found the result is equation if the text contains the equals sign and
  one of the known variable letters, simplify if it contains an arithmetic operator, and
  general otherwise.
\<close>

theorem classification_priority:
  "map fst problem_patterns =
     [''equation'', ''derivative'', ''integral'', ''limit'', ''matrix'', ''simplify'', ''graph'',
      ''optimization'']
   \<and> (\<forall>i<length problem_patterns.
         re_search True (snd (problem_patterns ! i)) (lower text)
         \<and> (\<forall>j<i. \<not> re_search True (snd (problem_patterns ! j)) (lower text))
         \<longrightarrow> identify_problem_type text = fst (problem_patterns ! i))
   \<and> ((\<forall>i<length problem_patterns. \<not> re_search True (snd (problem_patterns ! i)) (lower text))
        \<longrightarrow> identify_problem_type text =
            (if sublist ''='' text \<and> (\<exists>var \<in> set common_symbols. sublist var text)
             then ''equation''
             else if \<exists>op \<in> set [''+'', ''-'', ''*'', ''/'', ''^'']. sublist op text
             then ''simplify'' else ''general''))"
proof -
  have a: "map fst problem_patterns =
     [''equation'', ''derivative'', ''integral'', ''limit'', ''matrix'', ''simplify'', ''graph'',
      ''optimization'']"
    by (simp add: problem_patterns_def)
  have b: "\<forall>i<length problem_patterns.
         re_search True (snd (problem_patterns ! i)) (lower text)
         \<and> (\<forall>j<i. \<not> re_search True (snd (problem_patterns ! j)) (lower text))
         \<longrightarrow> identify_problem_type text = fst (problem_patterns ! i)"
    by (simp add: identify_problem_type_def Let_def first_match_at)
  have c: "(\<forall>i<length problem_patterns. \<not> re_search True (snd (problem_patterns ! i)) (lower text))
        \<longrightarrow> identify_problem_type text =
            (if sublist ''='' text \<and> (\<exists>var \<in> set common_symbols. sublist var text)
             then ''equation''
             else if \<exists>op \<in> set [''+'', ''-'', ''*'', ''/'', ''^'']. sublist op text
             then ''simplify'' else ''general'')"
  proof (intro impI)
    assume "\<forall>i<length problem_patterns. \<not> re_search True (snd (problem_patterns ! i)) (lower text)"
    then have n: "first_match problem_patterns (lower text) = None"
      by (rule first_match_none)
    show "identify_problem_type text =
            (if sublist ''='' text \<and> (\<exists>var \<in> set common_symbols. sublist var text)
             then ''equation''
             else if \<exists>op \<in> set [''+'', ''-'', ''*'', ''/'', ''^'']. sublist op text
             then ''simplify'' else ''general'')"
      unfolding identify_problem_type_def Let_def n list_ex_iff by simp
  qed
  from a b c show ?thesis by blast
qed

theorem classification_priority_witness:
  "identify_problem_type ''Differentiate, then SOLVE x = 1'' = ''equation''
   \<and> identify_problem_type ''3 + 4'' = ''simplify''"
proof -
  have l: "0 < length problem_patterns"
    by (simp add: problem_patterns_def)
  have f: "fst (problem_patterns ! 0) = ''equation''"
    by (simp add: problem_patterns_def)
  have h1: "re_search True (snd (problem_patterns ! 0)) (lower ''Differentiate, then SOLVE x = 1'')"
    by code_simp
  have n: "\<forall>j<0::nat. \<not> re_search True (snd (problem_patterns ! j))
                          (lower ''Differentiate, then SOLVE x = 1'')"
    by simp
  from classification_priority [of "''Differentiate, then SOLVE x = 1''"] l h1 n
  have "identify_problem_type ''Differentiate, then SOLVE x = 1'' = fst (problem_patterns ! 0)"
    by blast
  with f have r1: "identify_problem_type ''Differentiate, then SOLVE x = 1'' = ''equation''"
    by simp
  have h2: "\<forall>i<length problem_patterns.
              \<not> re_search True (snd (problem_patterns ! i)) (lower ''3 + 4'')"
    by code_simp
  have v: "(if sublist ''='' ''3 + 4'' \<and> (\<exists>var \<in> set common_symbols. sublist var ''3 + 4'')
            then ''equation''
            else if \<exists>op \<in> set [''+'', ''-'', ''*'', ''/'', ''^'']. sublist op ''3 + 4''
            then ''simplify'' else ''general'') = ''simplify''"
    by code_simp
  from classification_priority [of "''3 + 4''"] h2
  have "identify_problem_type ''3 + 4'' =
          (if sublist ''='' ''3 + 4'' \<and> (\<exists>var \<in> set common_symbols. sublist var ''3 + 4'')
           then ''equation''
           else if \<exists>op \<in> set [''+'', ''-'', ''*'', ''/'', ''^'']. sublist op ''3 + 4''
           then ''simplify'' else ''general'')"
    by blast
  with v have r2: "identify_problem_type ''3 + 4'' = ''simplify''"
    by simp
  from r1 r2 show ?thesis by simp
qed

text \<open>
  C2, as the specification states it, fails: the loop over the fallback patterns has no
  early exit. In the text \<^verbatim>\<open>f(x,y)\<close> no equation is found, the pattern of general expressions
  yields the candidate \<^verbatim>\<open>f(x\<close> of length 3, and the pattern of function calls, which comes
  later, still contributes \<^verbatim>\<open>f(x,y)\<close>.
\<close>

theorem fallback_chain_stops_counterexample:
  "candidates equation_pattern (cleaned_text_of ''f(x,y)'') = []
   \<and> candidates general_pattern (cleaned_text_of ''f(x,y)'') = [''f(x'']
   \<and> candidates function_pattern (cleaned_text_of ''f(x,y)'') = [''f(x,y)'']
   \<and> extract_expressions ''f(x,y)'' = [''f(x'', ''f(x,y)'']
   \<and> extract_expressions_stopping ''f(x,y)'' = [''f(x'']
   \<and> extract_expressions ''f(x,y)'' \<noteq> extract_expressions_stopping ''f(x,y)''"
proof -
  have a: "candidates equation_pattern (cleaned_text_of ''f(x,y)'') = []" by code_simp
  have b: "candidates general_pattern (cleaned_text_of ''f(x,y)'') = [''f(x'']" by code_simp
  have c: "candidates function_pattern (cleaned_text_of ''f(x,y)'') = [''f(x,y)'']" by code_simp
  have d: "extract_expressions ''f(x,y)'' = [''f(x'', ''f(x,y)'']" by code_simp
  have e: "extract_expressions_stopping ''f(x,y)'' = [''f(x'']" by code_simp
  from a b c d e show ?thesis by simp
qed

text \<open>
  C2, amended: when no equation is found (no match of the equation pattern is longer than
  two characters after stripping), all four fallback patterns are applied to the cleaned
  text, in the order parenthesized products, general expressions, coefficient notation,
  function calls, with no early stop. Every pattern contributes each of its matches,
  stripped, that is longer than two characters, and the result is the concatenation of
  these contributions in which only the first occurrence of every expression is kept: it
  has no duplicates and holds exactly the contributions.
\<close>

theorem fallback_patterns_all_contribute:
  assumes "cleaned = strip (re_sub True instruction_words [] text)"
    and "\<forall>m \<in> set (re_findall False equation_pattern cleaned). \<not> 2 < py_len (strip m)"
  shows "fallback_patterns = [product_pattern, general_pattern, coefficient_pattern, function_pattern]
         \<and> extract_expressions text =
             rev (remdups (rev (concat (map
               (\<lambda>pattern. filter (\<lambda>c. 2 < py_len c) (map strip (re_findall False pattern cleaned)))
               fallback_patterns))))
         \<and> distinct (extract_expressions text)
         \<and> set (extract_expressions text) =
             {strip m | m pattern. pattern \<in> set fallback_patterns
                \<and> m \<in> set (re_findall False pattern cleaned) \<and> 2 < py_len (strip m)}"
proof -
  have none: "candidates equation_pattern cleaned = []"
    using assms(2) by (simp add: candidates_filter filter_empty_conv)
  have e: "extract_expressions text =
             unique_expressions {} (try_patterns fallback_patterns cleaned [])"
    using none assms(1) by (simp add: extract_expressions_def candidates_def Let_def)
  have c: "(\<lambda>p. candidates p cleaned) =
           (\<lambda>pattern. filter (\<lambda>c. 2 < py_len c) (map strip (re_findall False pattern cleaned)))"
    by (rule ext) (rule candidates_filter)
  have eq: "extract_expressions text =
             rev (remdups (rev (concat (map
               (\<lambda>pattern. filter (\<lambda>c. 2 < py_len c) (map strip (re_findall False pattern cleaned)))
               fallback_patterns))))"
    unfolding e by (simp add: try_patterns_concat unique_expressions_eq c)
  have d: "distinct (extract_expressions text)"
    unfolding eq by simp
  have s: "set (extract_expressions text) =
             {strip m | m pattern. pattern \<in> set fallback_patterns
                \<and> m \<in> set (re_findall False pattern cleaned) \<and> 2 < py_len (strip m)}"
    unfolding eq by auto
  have l: "fallback_patterns = [product_pattern, general_pattern, coefficient_pattern, function_pattern]"
    by (simp add: fallback_patterns_def)
  from l eq d s show ?thesis by blast
qed

theorem fallback_patterns_all_contribute_witness:
  "re_findall False equation_pattern (strip (re_sub True instruction_words [] ''f(x,y)'')) = []
   \<and> extract_expressions ''f(x,y)'' =
       rev (remdups (rev (concat (map
         (\<lambda>pattern. filter (\<lambda>c. 2 < py_len c)
            (map strip (re_findall False pattern (strip (re_sub True instruction_words [] ''f(x,y)'')))))
         fallback_patterns))))
   \<and> extract_expressions ''f(x,y)'' = [''f(x'', ''f(x,y)'']"
proof -
  have e: "re_findall False equation_pattern (strip (re_sub True instruction_words [] ''f(x,y)''))
             = []"
    by code_simp
  have h: "\<forall>m \<in> set (re_findall False equation_pattern
                           (strip (re_sub True instruction_words [] ''f(x,y)''))).
             \<not> 2 < py_len (strip m)"
    unfolding e by simp
  have v: "rev (remdups (rev (concat (map
         (\<lambda>pattern. filter (\<lambda>c. 2 < py_len c)
            (map strip (re_findall False pattern (strip (re_sub True instruction_words [] ''f(x,y)'')))))
         fallback_patterns)))) = [''f(x'', ''f(x,y)'']"
    by code_simp
  from fallback_patterns_all_contribute [OF refl h] v e show ?thesis by simp
qed

section \<open>Properties of the orchestrator\<close>

lemma process_one_eq:
  "process_one sv f (t, st) =
     (t\<lparr>processed_count := processed_count t + (if res_success (recorded sv f) then 1 else 0),
        error_count := error_count t + (if res_success (recorded sv f) then 0 else 1),
        results := results t @ [recorded sv f]\<rparr>,
      st\<lparr>sched_stats := (sched_stats st)
            \<lparr>problems_solved := problems_solved (sched_stats st)
                                  + (if res_success (recorded sv f) then 1 else 0),
             problems_failed := problems_failed (sched_stats st)
                                  + (if res_success (recorded sv f) then 0 else 1)\<rparr>,
         fired := fired st @ events_of sv f\<rparr>)"
  by (cases "f ''name''")
     (simp_all add: process_one_def process_single_problem_def recorded_def events_of_def
        trigger_callbacks_def bump_solved_def bump_failed_def failure_def Let_def)

lemma process_files_eq:
  "process_files sv fs (t, st) =
     (t\<lparr>processed_count := processed_count t + successes sv fs,
        error_count := error_count t + failures sv fs,
        results := results t @ map (recorded sv) fs\<rparr>,
      st\<lparr>sched_stats := (sched_stats st)
            \<lparr>problems_solved := problems_solved (sched_stats st) + successes sv fs,
             problems_failed := problems_failed (sched_stats st) + failures sv fs\<rparr>,
         fired := fired st @ concat (map (events_of sv) fs)\<rparr>)"
proof (induction fs arbitrary: t st)
  case Nil
  then show ?case by (simp add: successes_def failures_def)
next
  case (Cons f fs)
  show ?case
    by (simp add: process_one_eq Cons.IH successes_def failures_def)
qed

lemma successes_failures: "successes sv fs + failures sv fs = length fs"
  unfolding successes_def failures_def by (induction fs) auto

lemma on_error_count:
  "length (filter is_on_error (concat (map (events_of sv) fs))) = failures sv fs"
  unfolding failures_def
  by (induction fs) (auto simp: events_of_def split: option.splits)

lemma on_solution_complete_count:
  "length (filter is_on_solution_complete (concat (map (events_of sv) fs))) = successes sv fs"
  unfolding successes_def
  by (induction fs) (auto simp: events_of_def split: option.splits)

lemma run_discovery_raises:
  assumes "get_new_files_since sv = Inl e"
  shows "fst (check_and_process_new_problems sv st) =
           \<lparr>sum_success = False, sum_new_files = 0, sum_processed = 0, sum_errors = 1,
            sum_error = Some e, sum_results = []\<rparr>"
  using assms by (simp add: check_and_process_new_problems_def Let_def)

lemma run_no_files:
  assumes "get_new_files_since sv = Inr []"
  shows "check_and_process_new_problems sv st =
           (\<lparr>sum_success = True, sum_new_files = 0, sum_processed = 0, sum_errors = 0,
             sum_error = None, sum_results = []\<rparr>,
            st\<lparr>sched_stats := (sched_stats st)
                 \<lparr>total_runs := total_runs (sched_stats st) + 1, last_run := Some (clock sv)\<rparr>\<rparr>)"
  using assms by (simp add: check_and_process_new_problems_def Let_def)

lemma run_summary_files:
  assumes "get_new_files_since sv = Inr fs" and "fs \<noteq> []"
  shows "fst (check_and_process_new_problems sv st) =
           \<lparr>sum_success = True, sum_new_files = length fs, sum_processed = successes sv fs,
            sum_errors = failures sv fs, sum_error = None, sum_results = map (recorded sv) fs\<rparr>"
  using assms by (simp add: check_and_process_new_problems_def Let_def process_files_eq)

lemma run_fired_files:
  assumes "get_new_files_since sv = Inr fs" and "fs \<noteq> []"
  shows "fired (snd (check_and_process_new_problems sv st)) =
           fired st @ concat (map (events_of sv) fs)"
  using assms by (simp add: check_and_process_new_problems_def Let_def process_files_eq)

lemma run_successful_runs_files:
  assumes "get_new_files_since sv = Inr fs" and "fs \<noteq> []"
  shows "successful_runs (sched_stats (snd (check_and_process_new_problems sv st))) =
           successful_runs (sched_stats st) + (if failures sv fs = 0 then 1 else 0)"
  using assms by (simp add: check_and_process_new_problems_def Let_def process_files_eq)

lemma safety_failure_recorded:
  assumes "f ''name'' = Some n" and "download_file sv f (''temp_files/'' @ n)"
    and "validate_file_safety sv (''temp_files/'' @ n) = (False, reason)"
  shows "recorded sv f = failure n (Safety_failed reason)"
  using assms by (simp add: recorded_def pipeline_def Let_def)

lemma problem_txt_succeeds:
  "res_success (recorded (example_services d (Inr True) p m) problem_txt)"
  by (simp add: recorded_def pipeline_def example_services_def problem_txt_def solved_def Let_def)

lemma virus_exe_fails:
  "\<not> res_success (recorded (example_services d u p m) virus_exe)"
  by (simp add: recorded_def pipeline_def example_services_def virus_exe_def failure_def Let_def)

text \<open>
  C1: a run in which discovery returns no file reports success with no file processed and no
  error, and it increments the counter of runs. It returns before the update of the
  statistics, so the counter of successful runs, the counter of failed runs and the time of
  the last success stay as they were; a run that finds files and has no error does
  increment the counter of successful runs.
\<close>

theorem zero_items_run_not_counted:
  "(get_new_files_since sv = Inr [] \<longrightarrow>
      (case check_and_process_new_problems sv st of
         (summary, st') \<Rightarrow>
           sum_success summary \<and> sum_processed summary = 0 \<and> sum_errors summary = 0
           \<and> total_runs (sched_stats st') = total_runs (sched_stats st) + 1
           \<and> successful_runs (sched_stats st') = successful_runs (sched_stats st)
           \<and> failed_runs (sched_stats st') = failed_runs (sched_stats st)
           \<and> last_success (sched_stats st') = last_success (sched_stats st)))
   \<and> (get_new_files_since sv = Inr files \<and> files \<noteq> [] \<and> failures sv files = 0 \<longrightarrow>
        successful_runs (sched_stats (snd (check_and_process_new_problems sv st)))
          = successful_runs (sched_stats st) + 1)"
proof -
  have a: "get_new_files_since sv = Inr [] \<longrightarrow>
      (case check_and_process_new_problems sv st of
         (summary, st') \<Rightarrow>
           sum_success summary \<and> sum_processed summary = 0 \<and> sum_errors summary = 0
           \<and> total_runs (sched_stats st') = total_runs (sched_stats st) + 1
           \<and> successful_runs (sched_stats st') = successful_runs (sched_stats st)
           \<and> failed_runs (sched_stats st') = failed_runs (sched_stats st)
           \<and> last_success (sched_stats st') = last_success (sched_stats st))"
    by (simp add: run_no_files)
  have b: "get_new_files_since sv = Inr files \<and> files \<noteq> [] \<and> failures sv files = 0 \<longrightarrow>
        successful_runs (sched_stats (snd (check_and_process_new_problems sv st)))
          = successful_runs (sched_stats st) + 1"
    by (simp add: run_successful_runs_files)
  from a b show ?thesis by blast
qed

theorem zero_items_run_not_counted_witness:
  "get_new_files_since (example_services (Inr []) (Inr True) True True) = Inr []
   \<and> sum_success (fst (check_and_process_new_problems
                          (example_services (Inr []) (Inr True) True True) example_scheduler))
   \<and> total_runs (sched_stats (snd (check_and_process_new_problems
                          (example_services (Inr []) (Inr True) True True) example_scheduler))) = 1
   \<and> successful_runs (sched_stats (snd (check_and_process_new_problems
                          (example_services (Inr []) (Inr True) True True) example_scheduler))) = 0"
proof -
  have h: "get_new_files_since (example_services (Inr []) (Inr True) True True) = Inr []"
    by (simp add: example_services_def)
  have z: "total_runs (sched_stats example_scheduler) = 0"
          "successful_runs (sched_stats example_scheduler) = 0"
    by (simp_all add: example_scheduler_def)
  from zero_items_run_not_counted
         [of "example_services (Inr []) (Inr True) True True" example_scheduler "[]"] h z
  show ?thesis by (simp add: case_prod_beta)
qed

text \<open>
  C5: every discovered file is processed, whatever happens to the files before it. The run
  records one result per file, in the order of discovery, and each result depends on that
  file alone; a file whose processing raises is recorded as a failure. The counters of the
  summary add up to the number of files, \<^verbatim>\<open>on_error\<close> fires once per failure and
  \<^verbatim>\<open>on_solution_complete\<close> once per success. With two files, one failing the safety
  validation and the other succeeding, the summary has one processed file and one error and
  each of the two events fires once.
\<close>

theorem batch_isolation:
  assumes "get_new_files_since sv = Inr files" and "files \<noteq> []"
  shows "case check_and_process_new_problems sv st of
           (summary, st') \<Rightarrow>
             sum_results summary = map (recorded sv) files
             \<and> sum_processed summary = successes sv files
             \<and> sum_errors summary = failures sv files
             \<and> sum_processed summary + sum_errors summary = length files
             \<and> fired_during st st' = concat (map (events_of sv) files)
             \<and> length (filter is_on_error (fired_during st st')) = sum_errors summary
             \<and> length (filter is_on_solution_complete (fired_during st st'))
                 = sum_processed summary
             \<and> (\<forall>a b n reason.
                   (files = [a, b] \<or> files = [b, a])
                   \<and> a ''name'' = Some n \<and> download_file sv a (''temp_files/'' @ n)
                   \<and> validate_file_safety sv (''temp_files/'' @ n) = (False, reason)
                   \<and> res_success (recorded sv b)
                   \<longrightarrow> sum_processed summary = 1 \<and> sum_errors summary = 1
                       \<and> length (filter is_on_error (fired_during st st')) = 1
                       \<and> length (filter is_on_solution_complete (fired_during st st')) = 1)"
proof -
  obtain summary st' where r: "check_and_process_new_problems sv st = (summary, st')"
    by (cases "check_and_process_new_problems sv st")
  from run_summary_files [OF assms, of st] r
  have s: "summary = \<lparr>sum_success = True, sum_new_files = length files,
                      sum_processed = successes sv files, sum_errors = failures sv files,
                      sum_error = None, sum_results = map (recorded sv) files\<rparr>"
    by simp
  from run_fired_files [OF assms, of st] r
  have f: "fired_during st st' = concat (map (events_of sv) files)"
    by (simp add: fired_during_def)
  have two: "successes sv files = 1 \<and> failures sv files = 1"
    if h: "files = [a, b] \<or> files = [b, a]" "a ''name'' = Some n"
          "download_file sv a (''temp_files/'' @ n)"
          "validate_file_safety sv (''temp_files/'' @ n) = (False, reason)"
          "res_success (recorded sv b)"
    for a b n reason
  proof -
    from safety_failure_recorded [OF h(2) h(3) h(4)]
    have "\<not> res_success (recorded sv a)" by (simp add: failure_def)
    with h(1) h(5) show ?thesis by (auto simp: successes_def failures_def)
  qed
  show ?thesis
    unfolding r using two
    by (simp add: s f successes_failures on_error_count on_solution_complete_count) blast
qed

theorem batch_isolation_witness:
  "sum_processed (fst (check_and_process_new_problems
       (example_services (Inr [virus_exe, problem_txt]) (Inr True) True True) example_scheduler)) = 1
   \<and> sum_errors (fst (check_and_process_new_problems
       (example_services (Inr [virus_exe, problem_txt]) (Inr True) True True) example_scheduler)) = 1
   \<and> length (filter is_on_error (fired_during example_scheduler (snd (check_and_process_new_problems
       (example_services (Inr [virus_exe, problem_txt]) (Inr True) True True) example_scheduler)))) = 1
   \<and> length (filter is_on_solution_complete (fired_during example_scheduler
       (snd (check_and_process_new_problems
       (example_services (Inr [virus_exe, problem_txt]) (Inr True) True True) example_scheduler)))) = 1"
proof -
  let ?sv = "example_services (Inr [virus_exe, problem_txt]) (Inr True) True True"
  have d: "get_new_files_since ?sv = Inr [virus_exe, problem_txt]"
    by (simp add: example_services_def)
  have ne: "[virus_exe, problem_txt] \<noteq> []" by simp
  have n: "virus_exe ''name'' = Some ''virus.exe''" by (simp add: virus_exe_def)
  have dl: "download_file ?sv virus_exe (''temp_files/'' @ ''virus.exe'')"
    by (simp add: example_services_def)
  have sf: "validate_file_safety ?sv (''temp_files/'' @ ''virus.exe'')
              = (False, ''Unsafe file extension: .exe'')"
    by (simp add: example_services_def)
  have ok: "res_success (recorded ?sv problem_txt)" by (rule problem_txt_succeeds)
  from batch_isolation [OF d ne, of example_scheduler] n dl sf ok
  show ?thesis by (auto simp: case_prod_beta)
qed

text \<open>
  C10: the summary of a run reports failure exactly when the discovery call raises. When
  discovery returns, the summary reports success also if every file fails: then the number
  of errors is the number of files and no file counts as processed.
\<close>

theorem run_fails_iff_discovery_raises:
  "(\<not> sum_success (fst (check_and_process_new_problems sv st))
      \<longleftrightarrow> (\<exists>e. get_new_files_since sv = Inl e))
   \<and> (\<forall>files. get_new_files_since sv = Inr files
                \<and> (\<forall>f \<in> set files. \<not> res_success (recorded sv f))
        \<longrightarrow> sum_success (fst (check_and_process_new_problems sv st))
            \<and> sum_errors (fst (check_and_process_new_problems sv st)) = length files
            \<and> sum_processed (fst (check_and_process_new_problems sv st)) = 0)"
proof -
  have a: "\<not> sum_success (fst (check_and_process_new_problems sv st))
             \<longleftrightarrow> (\<exists>e. get_new_files_since sv = Inl e)"
  proof (cases "get_new_files_since sv")
    case (Inl e)
    then show ?thesis by (simp add: run_discovery_raises)
  next
    case (Inr fs)
    then show ?thesis
      by (cases "fs = []") (simp_all add: run_no_files run_summary_files)
  qed
  have b: "sum_success (fst (check_and_process_new_problems sv st))
            \<and> sum_errors (fst (check_and_process_new_problems sv st)) = length files
            \<and> sum_processed (fst (check_and_process_new_problems sv st)) = 0"
    if h: "get_new_files_since sv = Inr files" "\<forall>f \<in> set files. \<not> res_success (recorded sv f)"
    for files
  proof (cases "files = []")
    case True
    with h show ?thesis by (simp add: run_no_files)
  next
    case False
    from h(2) have "failures sv files = length files" "successes sv files = 0"
      by (simp_all add: failures_def successes_def)
    with h(1) False show ?thesis by (simp add: run_summary_files)
  qed
  from a b show ?thesis by blast
qed

theorem run_fails_iff_discovery_raises_witness:
  "sum_success (fst (check_and_process_new_problems
      (example_services (Inr [virus_exe, virus_exe]) (Inr True) True True) example_scheduler))
   \<and> sum_errors (fst (check_and_process_new_problems
      (example_services (Inr [virus_exe, virus_exe]) (Inr True) True True) example_scheduler)) = 2
   \<and> sum_processed (fst (check_and_process_new_problems
      (example_services (Inr [virus_exe, virus_exe]) (Inr True) True True) example_scheduler)) = 0
   \<and> \<not> sum_success (fst (check_and_process_new_problems
      (example_services (Inl ''rate limit exceeded'') (Inr True) True True) example_scheduler))"
proof -
  let ?sv = "example_services (Inr [virus_exe, virus_exe]) (Inr True) True True"
  let ?sw = "example_services (Inl ''rate limit exceeded'') (Inr True) True True"
  have d: "get_new_files_since ?sv = Inr [virus_exe, virus_exe]"
    by (simp add: example_services_def)
  have f: "\<forall>f \<in> set [virus_exe, virus_exe]. \<not> res_success (recorded ?sv f)"
    by (simp add: virus_exe_fails)
  have e: "\<exists>e. get_new_files_since ?sw = Inl e"
    by (simp add: example_services_def)
  from run_fails_iff_discovery_raises [of ?sv example_scheduler] d f
  have 1: "sum_success (fst (check_and_process_new_problems ?sv example_scheduler))
           \<and> sum_errors (fst (check_and_process_new_problems ?sv example_scheduler)) = 2
           \<and> sum_processed (fst (check_and_process_new_problems ?sv example_scheduler)) = 0"
    by fastforce
  from run_fails_iff_discovery_raises [of ?sw example_scheduler] e
  have 2: "\<not> sum_success (fst (check_and_process_new_problems ?sw example_scheduler))"
    by blast
  from 1 2 show ?thesis by simp
qed

text \<open>
  C3, as the specification states it, fails: the values that the update of the main page
  and the notification return are not read. With collaborators that upload the solution
  and then fail at both, the file is reported as a success and the run counts it as
  processed.
\<close>

theorem delivery_failure_counterexample:
  "\<not> update_main_page undelivered_services
        \<lparr>problem_name = ''problem.txt'', status = ''Solved Successfully'',
         solution_url = ''solutions/solution_problem.txt_20240101_120000.md''\<rparr>
   \<and> \<not> send_solution_notification undelivered_services ''problem.txt''
          (solved ''Solve x^2 - 4 = 0'' ''problem.txt'')
          ''solutions/solution_problem.txt_20240101_120000.md''
   \<and> sr_success (solve undelivered_services ''Solve x^2 - 4 = 0'' ''problem.txt'')
   \<and> res_success (pipeline undelivered_services problem_txt ''problem.txt'')
   \<and> res_error (pipeline undelivered_services problem_txt ''problem.txt'') = None
   \<and> sum_processed (fst (check_and_process_new_problems undelivered_services example_scheduler)) = 1
   \<and> sum_errors (fst (check_and_process_new_problems undelivered_services example_scheduler)) = 0"
proof -
  have d: "get_new_files_since undelivered_services = Inr [problem_txt]"
    by (simp add: undelivered_services_def example_services_def)
  have ok: "res_success (recorded undelivered_services problem_txt)"
    unfolding undelivered_services_def by (rule problem_txt_succeeds)
  have s: "successes undelivered_services [problem_txt] = 1"
          "failures undelivered_services [problem_txt] = 0"
    using ok by (simp_all add: successes_def failures_def)
  have r: "sum_processed (fst (check_and_process_new_problems undelivered_services example_scheduler)) = 1
           \<and> sum_errors (fst (check_and_process_new_problems undelivered_services example_scheduler)) = 0"
    using run_summary_files [OF d, of example_scheduler] s by simp
  have p: "\<not> update_main_page undelivered_services
        \<lparr>problem_name = ''problem.txt'', status = ''Solved Successfully'',
         solution_url = ''solutions/solution_problem.txt_20240101_120000.md''\<rparr>
   \<and> \<not> send_solution_notification undelivered_services ''problem.txt''
          (solved ''Solve x^2 - 4 = 0'' ''problem.txt'')
          ''solutions/solution_problem.txt_20240101_120000.md''
   \<and> sr_success (solve undelivered_services ''Solve x^2 - 4 = 0'' ''problem.txt'')"
    by (simp add: undelivered_services_def example_services_def solved_def)
  have q: "res_success (pipeline undelivered_services problem_txt ''problem.txt'')
   \<and> res_error (pipeline undelivered_services problem_txt ''problem.txt'') = None"
    by (simp add: undelivered_services_def pipeline_def example_services_def solved_def Let_def)
  from p q r show ?thesis by blast
qed

text \<open>
  C3, amended: for a file whose solve step succeeds, an upload that returns false makes the
  file a failure whose result carries the solve payload, and an upload that returns true
  makes it a success that carries the payload; what the update of the main page and the
  notification return has no effect on the result.
\<close>

theorem delivery_after_solve:
  assumes "download_file sv file_info (''temp_files/'' @ file_name)"
    and "fst (validate_file_safety sv (''temp_files/'' @ file_name))"
    and "fst (validate_content sv (''temp_files/'' @ file_name))"
    and "extract_text_from_file sv (''temp_files/'' @ file_name) = Some content"
    and "content \<noteq> []"
    and "sr_success (solve sv content file_name)"
  shows "(upload_solution sv file_name (solve sv content file_name) = Inr False \<longrightarrow>
            \<not> res_success (pipeline sv file_info file_name)
            \<and> res_error (pipeline sv file_info file_name) = Some Upload_failed
            \<and> res_solution_data (pipeline sv file_info file_name)
                = Some (solve sv content file_name))
         \<and> (upload_solution sv file_name (solve sv content file_name) = Inr True \<longrightarrow>
            res_success (pipeline sv file_info file_name)
            \<and> res_solution_result (pipeline sv file_info file_name)
                = Some (solve sv content file_name))
         \<and> pipeline (sv\<lparr>update_main_page := page, send_solution_notification := mail\<rparr>)
              file_info file_name = pipeline sv file_info file_name"
  using assms
  by (auto simp: pipeline_def Let_def failure_def split: prod.splits sum.splits)

theorem delivery_after_solve_witness:
  "\<not> res_success (pipeline (example_services (Inr [problem_txt]) (Inr False) True True)
         problem_txt ''problem.txt'')
   \<and> res_solution_data (pipeline (example_services (Inr [problem_txt]) (Inr False) True True)
         problem_txt ''problem.txt'') = Some (solved ''Solve x^2 - 4 = 0'' ''problem.txt'')
   \<and> res_success (pipeline (example_services (Inr [problem_txt]) (Inr True) False False)
         problem_txt ''problem.txt'')"
proof -
  let ?sv = "example_services (Inr [problem_txt]) (Inr False) True True"
  let ?sw = "example_services (Inr [problem_txt]) (Inr True) False False"
  have v: "download_file ?sv problem_txt (''temp_files/'' @ ''problem.txt'')"
     "fst (validate_file_safety ?sv (''temp_files/'' @ ''problem.txt''))"
     "fst (validate_content ?sv (''temp_files/'' @ ''problem.txt''))"
     "extract_text_from_file ?sv (''temp_files/'' @ ''problem.txt'') = Some ''Solve x^2 - 4 = 0''"
     "''Solve x^2 - 4 = 0'' \<noteq> []"
     "sr_success (solve ?sv ''Solve x^2 - 4 = 0'' ''problem.txt'')"
    by (simp_all add: example_services_def solved_def)
  have w: "download_file ?sw problem_txt (''temp_files/'' @ ''problem.txt'')"
     "fst (validate_file_safety ?sw (''temp_files/'' @ ''problem.txt''))"
     "fst (validate_content ?sw (''temp_files/'' @ ''problem.txt''))"
     "extract_text_from_file ?sw (''temp_files/'' @ ''problem.txt'') = Some ''Solve x^2 - 4 = 0''"
     "sr_success (solve ?sw ''Solve x^2 - 4 = 0'' ''problem.txt'')"
    by (simp_all add: example_services_def solved_def)
  have u: "upload_solution ?sv ''problem.txt'' (solve ?sv ''Solve x^2 - 4 = 0'' ''problem.txt'')
             = Inr False"
          "solve ?sv ''Solve x^2 - 4 = 0'' ''problem.txt'' = solved ''Solve x^2 - 4 = 0'' ''problem.txt''"
          "upload_solution ?sw ''problem.txt'' (solve ?sw ''Solve x^2 - 4 = 0'' ''problem.txt'')
             = Inr True"
    by (simp_all add: example_services_def)
  from delivery_after_solve [OF v] u
  have 1: "\<not> res_success (pipeline ?sv problem_txt ''problem.txt'')
           \<and> res_solution_data (pipeline ?sv problem_txt ''problem.txt'')
               = Some (solved ''Solve x^2 - 4 = 0'' ''problem.txt'')"
    by simp
  from delivery_after_solve [OF w(1) w(2) w(3) w(4) v(5) w(5)] u
  have 2: "res_success (pipeline ?sw problem_txt ''problem.txt'')"
    by simp
  from 1 2 show ?thesis by simp
qed

section \<open>Properties of the solver\<close>

lemma solve_by_type_placeholder:
  "problem_type \<in> {''limit'', ''matrix'', ''optimization''} \<Longrightarrow>
   \<not> so_success (solve_by_type sy problem_type expressions context)
   \<and> so_error (solve_by_type sy problem_type expressions context) \<in> not_implemented"
  by (auto simp: solve_by_type_def solve_limit_def solve_matrix_def solve_optimization_def
        failed_outcome_def not_implemented_def)

text \<open>
  C9: for the categories limit, matrix and optimization the solve step fails with the
  message that the category is not yet implemented, whatever the SymPy methods do; a text
  that is classified as one of the three is never solved.
\<close>

theorem placeholders_never_solve:
  "(problem_type \<in> {''limit'', ''matrix'', ''optimization''} \<longrightarrow>
      \<not> so_success (solve_by_type sy problem_type expressions context)
      \<and> so_error (solve_by_type sy problem_type expressions context) \<in> not_implemented)
   \<and> (identify_problem_type (preprocess_text problem_text)
         \<in> {''limit'', ''matrix'', ''optimization''} \<longrightarrow>
        \<not> sr_success (solve_problem sy problem_text file_name)
        \<and> (is_mathematical_problem problem_text
            \<and> extract_expressions (preprocess_text problem_text) \<noteq> [] \<longrightarrow>
            sr_error_message (solve_problem sy problem_text file_name) \<in> not_implemented))"
proof -
  have a: "problem_type \<in> {''limit'', ''matrix'', ''optimization''} \<longrightarrow>
      \<not> so_success (solve_by_type sy problem_type expressions context)
      \<and> so_error (solve_by_type sy problem_type expressions context) \<in> not_implemented"
    using solve_by_type_placeholder by blast
  have b: "\<not> sr_success (solve_problem sy problem_text file_name)
        \<and> (is_mathematical_problem problem_text
            \<and> extract_expressions (preprocess_text problem_text) \<noteq> [] \<longrightarrow>
            sr_error_message (solve_problem sy problem_text file_name) \<in> not_implemented)"
    if h: "identify_problem_type (preprocess_text problem_text)
             \<in> {''limit'', ''matrix'', ''optimization''}"
    using solve_by_type_placeholder [OF h]
    by (simp add: solve_problem_def create_error_result_def Let_def)
  from a b show ?thesis by blast
qed

theorem placeholders_never_solve_witness:
  "identify_problem_type (preprocess_text ''Find the limit of 2x + 1'') = ''limit''
   \<and> \<not> sr_success (solve_problem example_solvers ''Find the limit of 2x + 1'' ''limit.txt'')
   \<and> sr_error_message (solve_problem example_solvers ''Find the limit of 2x + 1'' ''limit.txt'')
       \<in> not_implemented
   \<and> \<not> so_success (solve_by_type example_solvers ''matrix'' [''A^2''] ''matrix A^2'')"
proof -
  have i: "identify_problem_type (preprocess_text ''Find the limit of 2x + 1'') = ''limit''"
    by code_simp
  have e: "extract_expressions (preprocess_text ''Find the limit of 2x + 1'') \<noteq> []"
    by code_simp
  have m: "is_mathematical_problem ''Find the limit of 2x + 1''"
    by code_simp
  have t: "''matrix'' \<in> {''limit'', ''matrix'', ''optimization''}"
    by simp
  from placeholders_never_solve
         [of "''matrix''" example_solvers "[''A^2'']" "''matrix A^2''"
             "''Find the limit of 2x + 1''" "''limit.txt''"] i e m t
  show ?thesis by simp
qed

end
